theory Spec2Isabelle
  imports Main "HOL-Library.Sublist"
begin

section \<open>JavaScript strings\<close>

text \<open>
  A JavaScript string is a sequence of UTF-16 code units. The model uses \<open>string\<close>
  (a list of 8-bit characters) and reads a character as the code unit with the same
  number, so it covers the messages whose code units are all below 256, ASCII in
  particular. \<open>length\<close> is then the \<open>.length\<close> of the source.
\<close>

definition is_space :: "char \<Rightarrow> bool" where
  \<comment> \<open>the class \<open>\s\<close> of a regular expression, which is also what \<open>trim()\<close> strips:
     tab, line feed, vertical tab, form feed, carriage return, space, no-break space\<close>
  "is_space c = (c = CHR 0x09 \<or> c = CHR 0x0A \<or> c = CHR 0x0B \<or> c = CHR 0x0C \<or>
                 c = CHR 0x0D \<or> c = CHR '' '' \<or> c = CHR 0xA0)"

definition is_line_terminator :: "char \<Rightarrow> bool" where
  \<comment> \<open>what \<open>.\<close> does not match in a regular expression without the \<open>s\<close> flag\<close>
  "is_line_terminator c = (c = CHR 0x0A \<or> c = CHR 0x0D)"

definition is_word :: "char \<Rightarrow> bool" where
  \<comment> \<open>the class \<open>[A-Za-z0-9_]\<close>, which is also \<open>\w\<close>\<close>
  "is_word c = (let n = (of_char c :: nat) in
     (65 \<le> n \<and> n \<le> 90) \<or> (97 \<le> n \<and> n \<le> 122) \<or> (48 \<le> n \<and> n \<le> 57) \<or> n = 95)"

definition is_upper :: "char \<Rightarrow> bool" where
  \<comment> \<open>the code units below 256 that \<open>toLowerCase()\<close> changes: A to Z, and the
     Latin-1 capitals 0xC0 to 0xDE without the multiplication sign 0xD7\<close>
  "is_upper c = (let n = (of_char c :: nat) in
     (65 \<le> n \<and> n \<le> 90) \<or> (192 \<le> n \<and> n \<le> 222 \<and> n \<noteq> 215))"

definition lower_char :: "char \<Rightarrow> char" where
  \<comment> \<open>the lower-case letter is 32 above the capital: bit 5, clear in every capital, is set\<close>
  "lower_char c = (if is_upper c
     then (case c of Char b0 b1 b2 b3 b4 b5 b6 b7 \<Rightarrow> Char b0 b1 b2 b3 b4 True b6 b7)
     else c)"

definition toLowerCase :: "string \<Rightarrow> string" where
  "toLowerCase s = map lower_char s"

definition startsWith :: "string \<Rightarrow> string \<Rightarrow> bool" where
  "startsWith s p = (take (length p) s = p)"

fun includes_str :: "string \<Rightarrow> string \<Rightarrow> bool" where
  \<comment> \<open>\<open>s.includes(p)\<close>: \<open>p\<close> occurs in \<open>s\<close> at some position\<close>
  "includes_str [] p = (p = [])"
| "includes_str (c # cs) p = (startsWith (c # cs) p \<or> includes_str cs p)"

definition trim :: "string \<Rightarrow> string" where
  "trim s = rev (dropWhile is_space (rev (dropWhile is_space s)))"

fun split_on :: "char \<Rightarrow> string \<Rightarrow> string list" where
  \<comment> \<open>\<open>s.split(c)\<close> for a one-character separator: always at least one piece\<close>
  "split_on sep [] = [[]]"
| "split_on sep (c # cs) =
     (if c = sep then [] # split_on sep cs
      else (case split_on sep cs of
              [] \<Rightarrow> [[c]]
            | p # ps \<Rightarrow> (c # p) # ps))"



section \<open>Tool responses (utils/helpers.js)\<close>

datatype 'a response =
    Text string     \<comment> \<open>\<open>text(msg)\<close>\<close>
  | Json 'a         \<comment> \<open>\<open>json(obj)\<close>, the object kept as a value\<close>
  | Error string    \<comment> \<open>\<open>error(msg)\<close>: the text is \<open>Error: msg\<close> and \<open>isError\<close> is set\<close>


section \<open>Claim lookup (utils/claims.js)\<close>

record claimInfo =
  claimed :: bool
  owner :: "string option"
  builders :: "string list"
  containers :: "string list"
  accessors :: "string list"
  managers :: "string list"
  raw_messages :: "string list"
  command_error :: bool

definition claimInfo_init :: claimInfo where
  "claimInfo_init = \<lparr> claimed = False, owner = None, builders = [], containers = [],
     accessors = [], managers = [], raw_messages = [], command_error = False \<rparr>"

fun owner_match :: "string \<Rightarrow> string option" where
  \<comment> \<open>\<open>text.match(/[Oo]wner:\s*(\S+)/)\<close>, group 1: at the first place where
     \<open>Owner:\<close> or \<open>owner:\<close> is followed, after any white space, by a character
     that is not white space, the run of such characters\<close>
  "owner_match [] = None"
| "owner_match (c # cs) =
     (if (c = CHR ''O'' \<or> c = CHR ''o'') \<and> startsWith cs ''wner:'' \<and>
         dropWhile is_space (drop 5 cs) \<noteq> []
      then Some (takeWhile (\<lambda>d. \<not> is_space d) (dropWhile is_space (drop 5 cs)))
      else owner_match cs)"

definition rest_match :: "string \<Rightarrow> string option" where
  \<comment> \<open>\<open>\s*(.+)\<close> at the start of \<open>r\<close>, group 1. The greedy \<open>\s*\<close> takes the whole
     run of white space; when a character follows, the group is the rest of that line.
     When the string ends there, \<open>\s*\<close> gives characters back until the group can start
     on one that is not a line terminator, which is then the whole group.\<close>
  "rest_match r =
     (let ws = takeWhile is_space r; r' = dropWhile is_space r in
      if r' \<noteq> [] then Some (takeWhile (\<lambda>d. \<not> is_line_terminator d) r')
      else (case dropWhile is_line_terminator (rev ws) of
              [] \<Rightarrow> None
            | d # _ \<Rightarrow> Some [d]))"

fun key_match :: "string \<Rightarrow> string \<Rightarrow> string option" where
  \<comment> \<open>\<open>text.match(/Key:\s*(.+)/)\<close>, group 1, for a literal \<open>Key:\<close>: the first
     occurrence of the key at which the rest matches\<close>
  "key_match key [] = None"
| "key_match key (c # cs) =
     (if startsWith (c # cs) key
      then (case rest_match (drop (length key) (c # cs)) of
              Some g \<Rightarrow> Some g
            | None \<Rightarrow> key_match key cs)
      else key_match key cs)"

definition name_list :: "string \<Rightarrow> string list" where
  \<comment> \<open>\<open>match[1].split(',').map(s => s.trim()).filter(s => s)\<close>\<close>
  "name_list g = filter (\<lambda>s. s \<noteq> []) (map trim (split_on CHR '','' g))"

definition claims_onMessage :: "string \<Rightarrow> claimInfo \<Rightarrow> claimInfo" where
  \<comment> \<open>the listener \<open>onMessage\<close> of \<open>checkClaimStatus\<close>, on the text of one message\<close>
  "claims_onMessage text ci0 =
     (let ci = ci0\<lparr> raw_messages := raw_messages ci0 @ [text] \<rparr> in
      if includes_str text ''No claim exists'' \<or> includes_str text ''Wilderness'' then
        ci\<lparr> claimed := False \<rparr>
      else if includes_str text ''owner:'' \<or> includes_str text ''Owner:'' then
        (case owner_match text of
           Some m \<Rightarrow> ci\<lparr> claimed := True, owner := Some m \<rparr>
         | None \<Rightarrow> ci\<lparr> claimed := True \<rparr>)
      else if includes_str text ''Managers:'' then
        (case key_match ''Managers:'' text of
           Some g \<Rightarrow> ci\<lparr> claimed := True, managers := name_list g \<rparr>
         | None \<Rightarrow> ci\<lparr> claimed := True \<rparr>)
      else if includes_str text ''Builders:'' then
        (case key_match ''Builders:'' text of
           Some g \<Rightarrow> ci\<lparr> claimed := True, builders := name_list g \<rparr>
         | None \<Rightarrow> ci\<lparr> claimed := True \<rparr>)
      else if includes_str text ''Containers:'' then
        (case key_match ''Containers:'' text of
           Some g \<Rightarrow> ci\<lparr> claimed := True, containers := name_list g \<rparr>
         | None \<Rightarrow> ci\<lparr> claimed := True \<rparr>)
      else if includes_str text ''Accessors:'' then
        (case key_match ''Accessors:'' text of
           Some g \<Rightarrow> ci\<lparr> claimed := True, accessors := name_list g \<rparr>
         | None \<Rightarrow> ci\<lparr> claimed := True \<rparr>)
      else if includes_str text ''That command is not recognized'' then
        ci\<lparr> command_error := True \<rparr>
      else ci)"

record connect_args =
  \<comment> \<open>the arguments of \<open>connect\<close> after destructuring, as \<open>this.connectArgs\<close> keeps them\<close>
  host :: string
  port :: nat
  username :: string
  version :: "string option"
  auth :: "string option"

datatype effect =
    Bot_chat string               \<comment> \<open>\<open>bot.chat(text)\<close>\<close>
  | Bot_quit nat                  \<comment> \<open>\<open>bot.quit()\<close> on the bot with this number\<close>
  | Create_bot nat connect_args   \<comment> \<open>\<open>mineflayer.createBot(opts)\<close> returned the bot with this number\<close>
  | Sleep nat                     \<comment> \<open>a wait of so many milliseconds\<close>
  | Set_reconnect_timer nat       \<comment> \<open>\<open>setTimeout\<close> of the reconnect callback, with its delay\<close>
  | Return "unit response"        \<comment> \<open>the value a tool call returns at once\<close>
  | Resolve_connect nat           \<comment> \<open>the promise of the connect call that made this bot resolves
                                     with the text \<open>Connected as ...\<close>\<close>
  | Reject_connect string         \<comment> \<open>the promise of a connect call rejects with this message\<close>

definition checkClaimStatus :: "string list \<Rightarrow> claimInfo \<times> effect list" where
  \<comment> \<open>\<open>window\<close> holds the texts of the messages that arrive during the 1500 ms in
     which the listener is attached, in their order\<close>
  "checkClaimStatus window =
     (foldl (\<lambda>ci text. claims_onMessage text ci) claimInfo_init window,
      [Bot_chat ''/trustlist'', Sleep 1500])"

definition no_claim_phrase :: "string \<Rightarrow> bool" where
  \<comment> \<open>the condition of the first branch of the listener\<close>
  "no_claim_phrase t = (includes_str t ''No claim exists'' \<or> includes_str t ''Wilderness'')"

definition claim_line :: "string \<Rightarrow> bool" where
  \<comment> \<open>the text takes one of the branches that set \<open>claimed\<close> to \<open>true\<close>\<close>
  "claim_line t = (\<not> no_claim_phrase t \<and>
     (includes_str t ''owner:'' \<or> includes_str t ''Owner:'' \<or> includes_str t ''Managers:'' \<or>
      includes_str t ''Builders:'' \<or> includes_str t ''Containers:'' \<or> includes_str t ''Accessors:''))"

definition other_line :: "string \<Rightarrow> bool" where
  \<comment> \<open>the text takes none of the branches that write \<open>claimed\<close>\<close>
  "other_line t = (\<not> no_claim_phrase t \<and> \<not> claim_line t)"

section \<open>Denial capture (tools/building.js)\<close>

datatype position = Chat_pos | System_pos | Game_info_pos
  \<comment> \<open>the second argument of a \<open>message\<close> event: \<open>'chat'\<close>, \<open>'system'\<close>, \<open>'game_info'\<close>\<close>

definition is_denial :: "string \<Rightarrow> bool" where
  \<comment> \<open>the condition of the listener, on the lower-cased text\<close>
  "is_denial msgText =
     (includes_str msgText ''don't have'' \<and> includes_str msgText ''permission'' \<or>
      includes_str msgText ''belongs to'' \<or>
      includes_str msgText ''claimed by'' \<or>
      includes_str msgText ''claim'' \<and>
        (includes_str msgText ''can't'' \<or> includes_str msgText ''cannot'') \<or>
      includes_str msgText ''not allowed'' \<or>
      includes_str msgText ''that belongs to'')"

definition denial_onMessage :: "string \<Rightarrow> position \<Rightarrow> string list \<Rightarrow> string list" where
  \<comment> \<open>the listener \<open>onMessage\<close> of \<open>placeBlock\<close> and \<open>breakBlock\<close>, acting on
     \<open>denialMessages\<close>. The emitter passes the position too; the listener takes only
     the message.\<close>
  "denial_onMessage jsonMsg pos denialMessages =
     (if is_denial (toLowerCase jsonMsg) then denialMessages @ [jsonMsg] else denialMessages)"

section \<open>The chat log and the session's message listener (tools/connection.js)\<close>

datatype chat_entry =
    Chat string string int         \<comment> \<open>\<open>{type: 'chat', user, message, timestamp}\<close>\<close>
  | System string position int     \<comment> \<open>\<open>{type: 'system', message, position, timestamp}\<close>\<close>

definition push_log :: "chat_entry \<Rightarrow> chat_entry list \<Rightarrow> chat_entry list" where
  \<comment> \<open>\<open>chatLog.push(e); if (chatLog.length > 100) chatLog.shift()\<close>\<close>
  "push_log e chatLog = (let l = chatLog @ [e] in if length l > 100 then tl l else l)"

definition on_chat :: "string \<Rightarrow> string \<Rightarrow> int \<Rightarrow> chat_entry list \<Rightarrow> chat_entry list" where
  \<comment> \<open>the listener of \<open>chat\<close>; \<open>now\<close> is \<open>Date.now()\<close>\<close>
  "on_chat user message now chatLog = push_log (Chat user message now) chatLog"

fun placed_scan :: "bool \<Rightarrow> string \<Rightarrow> bool" where
  \<comment> \<open>the search for \<open>\bplaced? a sign @\<close>; the flag says whether the character
     before the current position is a word character, in which case \<open>\b\<close> fails here\<close>
  "placed_scan prev [] = False"
| "placed_scan prev (c # cs) =
     ((\<not> prev \<and> (startsWith (c # cs) ''place a sign @'' \<or> startsWith (c # cs) ''placed a sign @''))
      \<or> placed_scan (is_word c) cs)"

definition sign_placement_test :: "string \<Rightarrow> bool" where
  \<comment> \<open>\<open>/\bplaced? a sign @/.test(msgText)\<close>\<close>
  "sign_placement_test msgText = placed_scan False msgText"

definition sign_content_test :: "string \<Rightarrow> bool" where
  \<comment> \<open>\<open>/^\s{2,}/.test(msgText)\<close>\<close>
  "sign_content_test msgText =
     (case msgText of a # b # _ \<Rightarrow> is_space a \<and> is_space b | _ \<Rightarrow> False)"

definition private_message_test :: "string \<Rightarrow> bool" where
  \<comment> \<open>\<open>/\s*->\s*/.test(t) || /whispers? to/i.test(t) || /\[.*\s*\<rightarrow>\s*.*\]/.test(t)\<close>.
     The first pattern matches exactly where \<open>->\<close> occurs. The second ignores case, and
     its letters have no other spelling below 256 than their two cases. The third needs
     the arrow U+2192, which no string of the model holds, so it adds nothing here.\<close>
  "private_message_test msgText =
     (includes_str msgText ''->'' \<or>
      includes_str (toLowerCase msgText) ''whisper to'' \<or>
      includes_str (toLowerCase msgText) ''whispers to'')"

definition chat_match :: "string \<Rightarrow> (string \<times> string) option" where
  \<comment> \<open>\<open>msgText.match(/^([A-Za-z0-9_]{3,16}): (.+)$/)\<close>, groups 1 and 2. The colon is
     not a word character, so group 1 can only be the whole run of word characters at
     the start; group 2 is the rest, which must hold no line terminator.\<close>
  "chat_match msgText =
     (let user = takeWhile is_word msgText; r = dropWhile is_word msgText in
      if 3 \<le> length user \<and> length user \<le> 16 \<and> startsWith r '': '' \<and> drop 2 r \<noteq> [] \<and>
         \<not> list_ex is_line_terminator (drop 2 r)
      then Some (user, drop 2 r) else None)"

definition isDuplicate :: "string \<Rightarrow> string \<Rightarrow> int \<Rightarrow> chat_entry list \<Rightarrow> bool" where
  \<comment> \<open>\<open>chatLog.some(m => m.type === 'chat' && m.user === user && m.message === message
     && Date.now() - m.timestamp < 1000)\<close>\<close>
  "isDuplicate user message now chatLog =
     list_ex (\<lambda>m. case m of
                  Chat u msg ts \<Rightarrow> u = user \<and> msg = message \<and> now - ts < 1000
                | System _ _ _ \<Rightarrow> False) chatLog"

definition on_message ::
  "string \<Rightarrow> position \<Rightarrow> int \<Rightarrow> int \<times> chat_entry list \<Rightarrow> int \<times> chat_entry list" where
  \<comment> \<open>the session's listener of \<open>message\<close>, acting on the pair of its closure variable
     \<open>signPlacementTime\<close> and \<open>this.chatLog\<close>. \<open>now\<close> is \<open>Date.now()\<close>, taken to be the
     same at every reading within one call. The append to the message file
     (\<open>logBotMessage\<close>) goes with every push and is left out.\<close>
  "on_message msgText pos now st =
     (case st of (signPlacementTime, chatLog) \<Rightarrow>
      if pos = System_pos \<or> pos = Game_info_pos then
        if trim msgText = [] then st
        else if sign_placement_test msgText then (now, chatLog)
        else if now - signPlacementTime < 500 \<and> sign_content_test msgText \<and> length msgText < 50
          then st
        else if private_message_test msgText then st
        else (case chat_match msgText of
                Some (user, message) \<Rightarrow>
                  if pos = System_pos \<and> \<not> isDuplicate user message now chatLog
                  then (signPlacementTime, push_log (Chat user message now) chatLog)
                  else (signPlacementTime, push_log (System msgText pos now) chatLog)
              | None \<Rightarrow> (signPlacementTime, push_log (System msgText pos now) chatLog))
      else st)"

definition emit_message ::
  "string \<Rightarrow> position \<Rightarrow> int \<Rightarrow> (int \<times> chat_entry list) \<times> string list \<Rightarrow>
   (int \<times> chat_entry list) \<times> string list" where
  \<comment> \<open>one \<open>message\<close> event while a capture window is open: the emitter calls the
     session's listener and the window's listener, each on its own state\<close>
  "emit_message msgText pos now st =
     (on_message msgText pos now (fst st), denial_onMessage msgText pos (snd st))"

section \<open>Verification after a protected action (tools/building.js, tools/signs.js)\<close>

type_synonym vec3 = "int \<times> int \<times> int"



record placed =
  place_success :: bool
  block_placed :: string
  placed_position :: vec3
  against_block :: string
  against_position :: vec3








section \<open>The session (index.js, tools/connection.js)\<close>

datatype connection_state = Disconnected | Connecting | Connected | Reconnecting

definition state_name :: "connection_state \<Rightarrow> string" where
  "state_name c = (case c of Disconnected \<Rightarrow> ''disconnected'' | Connecting \<Rightarrow> ''connecting''
     | Connected \<Rightarrow> ''connected'' | Reconnecting \<Rightarrow> ''reconnecting'')"

record mcp =
  \<comment> \<open>the fields of \<open>MinecraftMCP\<close> that the connection logic reads or writes; a bot
     object is known by its number\<close>
  bot :: "nat option"
  chatLog :: "chat_entry list"
  connectionState :: connection_state
  connectArgs :: "connect_args option"
  lastDisconnectReason :: "string option"
  reconnectAttempt :: nat
  maxReconnectAttempts :: nat
  baseReconnectDelay :: nat

definition constructor :: mcp where
  "constructor = \<lparr> bot = None, chatLog = [], connectionState = Disconnected, connectArgs = None,
     lastDisconnectReason = None, reconnectAttempt = 0, maxReconnectAttempts = 10,
     baseReconnectDelay = 2000 \<rparr>"

definition scheduleReconnect :: "mcp \<Rightarrow> mcp \<times> nat option" where
  \<comment> \<open>returns the delay of the timer it sets, \<open>None\<close> when it sets none. The numbers of
     the source are doubles; for a base delay that is a positive integer below 2^53 (the
     constructor sets 2000) the product is exact, or so large that the minimum is 60000
     either way.\<close>
  "scheduleReconnect s =
     (if reconnectAttempt s \<ge> maxReconnectAttempts s then
        (s\<lparr> connectionState := Disconnected \<rparr>, None)
      else
        (let s1 = s\<lparr> reconnectAttempt := reconnectAttempt s + 1 \<rparr>;
             delay = min (baseReconnectDelay s1 * 2 ^ (reconnectAttempt s1 - 1)) 60000
         in (s1\<lparr> connectionState := Reconnecting \<rparr>, Some delay)))"

definition disconnect :: "mcp \<Rightarrow> mcp \<times> effect list" where
  "disconnect s0 =
     (let s = s0\<lparr> connectArgs := None, reconnectAttempt := 0, connectionState := Disconnected \<rparr> in
      (case bot s of
         Some b \<Rightarrow> (s\<lparr> bot := None \<rparr>,
                     [Bot_quit b, Return (Text ''Disconnected. Auto-reconnect disabled.'')])
       | None \<Rightarrow> (s, [Return (Text ''Not connected'')])))"

record call_args =
  \<comment> \<open>the argument object of the tool \<open>connect\<close>; \<open>None\<close> is a property left out\<close>
  arg_host :: "string option"
  arg_port :: "nat option"
  arg_username :: string
  arg_version :: "string option"
  arg_auth :: "string option"

definition destructure :: "call_args \<Rightarrow> connect_args" where
  \<comment> \<open>\<open>{ host = 'localhost', port = 25565, username, version, auth }\<close>\<close>
  "destructure a = \<lparr> host = (case arg_host a of None \<Rightarrow> ''localhost'' | Some h \<Rightarrow> h),
     port = (case arg_port a of None \<Rightarrow> 25565 | Some p \<Rightarrow> p),
     username = arg_username a, version = arg_version a, auth = arg_auth a \<rparr>"

datatype begun =
    Busy                 \<comment> \<open>the call has returned \<open>Already ... Please wait.\<close>\<close>
  | Proceed_now          \<comment> \<open>there was no bot: the promise body runs in the same turn\<close>
  | Proceed_later        \<comment> \<open>the old bot was quit: the promise body runs after 500 ms\<close>

definition connect_begin :: "connect_args \<Rightarrow> bool \<Rightarrow> mcp \<Rightarrow> mcp \<times> begun \<times> effect list" where
  \<comment> \<open>\<open>connect(args, isReconnect)\<close> up to \<open>return new Promise\<close>\<close>
  "connect_begin args isReconnect s0 =
     (let s = (if \<not> isReconnect then s0\<lparr> connectArgs := Some args \<rparr> else s0) in
      if connectionState s = Connecting \<or> connectionState s = Reconnecting then
        (s, Busy, [Return (Text (''Already '' @ state_name (connectionState s) @ ''. Please wait.''))])
      else
        (let s1 = s\<lparr> connectionState := (if isReconnect then Reconnecting else Connecting) \<rparr> in
         (case bot s1 of
            Some b \<Rightarrow> (s1\<lparr> bot := None \<rparr>, Proceed_later, [Bot_quit b, Sleep 500])
          | None \<Rightarrow> (s1, Proceed_now, []))))"

record closure =
  \<comment> \<open>what the listeners made by one run of the promise body share\<close>
  resolved :: bool
  signPlacementTime :: int
  spawn_listener :: bool     \<comment> \<open>the \<open>once('spawn')\<close> listener is still attached\<close>
  timeout_pending :: bool    \<comment> \<open>the 30 s timer has not fired yet\<close>

definition finish :: "bool \<Rightarrow> effect \<Rightarrow> closure \<times> mcp \<Rightarrow> closure \<times> mcp \<times> effect list" where
  \<comment> \<open>\<open>finish(success, result)\<close>; the effect stands for \<open>resolve(result)\<close> or
     \<open>reject(result)\<close>\<close>
  "finish ok settle cs =
     (case cs of (c, s) \<Rightarrow>
      if resolved c then (c, s, [])
      else if ok then (c\<lparr> resolved := True \<rparr>, s, [settle])
      else (c\<lparr> resolved := True \<rparr>, s\<lparr> connectionState := Disconnected \<rparr>, [settle]))"

definition on_spawn :: "nat \<Rightarrow> closure \<times> mcp \<Rightarrow> closure \<times> mcp \<times> effect list" where
  \<comment> \<open>the listener of \<open>spawn\<close>, attached with \<open>once\<close>. It reads \<open>this.bot.version\<close>
     first, which throws when \<open>this.bot\<close> is \<open>null\<close>; nothing else has happened then.\<close>
  "on_spawn b cs =
     (case cs of (c0, s) \<Rightarrow>
      let c = c0\<lparr> spawn_listener := False \<rparr> in
      (case bot s of
         None \<Rightarrow> (c, s, [])
       | Some _ \<Rightarrow>
           finish True (Resolve_connect b)
             (c, s\<lparr> connectionState := Connected, reconnectAttempt := 0,
                    lastDisconnectReason := None \<rparr>)))"

definition on_error :: "string \<Rightarrow> closure \<times> mcp \<Rightarrow> closure \<times> mcp \<times> effect list" where
  "on_error msg cs = finish False (Reject_connect (''Connection failed: '' @ msg)) cs"

definition on_kicked :: "string \<Rightarrow> mcp \<Rightarrow> mcp" where
  "on_kicked reason s = s\<lparr> lastDisconnectReason := Some (''Kicked: '' @ reason) \<rparr>"

definition on_end :: "closure \<times> mcp \<Rightarrow> mcp \<times> effect list" where
  \<comment> \<open>the listener of \<open>end\<close>; the reason is only printed\<close>
  "on_end cs =
     (case cs of (c, s) \<Rightarrow>
      let wasConnected = (connectionState s = Connected);
          s1 = s\<lparr> bot := None \<rparr>;
          s2 = (if \<not> resolved c then s1\<lparr> connectionState := Disconnected \<rparr> else s1)
      in if wasConnected \<and> connectArgs s2 \<noteq> None then
           (case scheduleReconnect s2 of
              (s3, Some delay) \<Rightarrow> (s3, [Set_reconnect_timer delay])
            | (s3, None) \<Rightarrow> (s3, []))
         else (s2, []))"

definition on_timeout :: "closure \<times> mcp \<Rightarrow> closure \<times> mcp \<times> effect list" where
  \<comment> \<open>the callback of the 30 s timer\<close>
  "on_timeout cs =
     (case cs of (c0, s) \<Rightarrow>
      let c = c0\<lparr> timeout_pending := False \<rparr> in
      if \<not> resolved c \<and> connectionState s \<noteq> Connected then
        (case finish False (Reject_connect ''Connection timeout'') (c, s) of
           (c', s', effs) \<Rightarrow>
             (c', s', (case bot s of Some b \<Rightarrow> [Bot_quit b] | None \<Rightarrow> []) @ effs))
      else (c, s, []))"

section \<open>The session and its environment, one event at a time\<close>

text \<open>
  JavaScript runs one callback at a time. A step of the model is one such turn: a tool
  call up to its first wait, a timer firing, or an event of a bot object. The world holds
  the session, the closure of every bot that got listeners, the connect calls that are in
  their 500 ms wait, and the number of reconnect timers that are set.
\<close>

record world =
  session :: mcp
  closures :: "nat \<Rightarrow> closure option"
  nextBot :: nat
  sleeping :: "connect_args list"
  timers :: nat

definition world_init :: world where
  "world_init = \<lparr> session = constructor, closures = (\<lambda>_. None), nextBot = 0, sleeping = [],
     timers = 0 \<rparr>"

datatype create_outcome =
    Created                 \<comment> \<open>\<open>createBot\<close> and \<open>loadPlugin\<close> return\<close>
  | Create_throws string    \<comment> \<open>\<open>createBot\<close> throws, with this message\<close>
  | Plugin_throws string    \<comment> \<open>\<open>createBot\<close> returns and \<open>loadPlugin\<close> throws\<close>

definition connect_body :: "connect_args \<Rightarrow> create_outcome \<Rightarrow> world \<Rightarrow> world \<times> effect list" where
  \<comment> \<open>the body of the promise that \<open>connect\<close> returns: it makes the bot, and when
     that works attaches the listeners and sets the 30 s timer. When it throws,
     \<open>finish(false, ...)\<close> runs on the fresh closure.\<close>
  "connect_body args outcome w =
     (let b = nextBot w; s = session w in
      case outcome of
        Create_throws msg \<Rightarrow>
          (w\<lparr> session := s\<lparr> connectionState := Disconnected \<rparr> \<rparr>,
           [Reject_connect (''Failed to create bot: '' @ msg)])
      | Plugin_throws msg \<Rightarrow>
          (w\<lparr> session := s\<lparr> bot := Some b, connectionState := Disconnected \<rparr>,
              nextBot := Suc b \<rparr>,
           [Create_bot b args, Reject_connect (''Failed to create bot: '' @ msg)])
      | Created \<Rightarrow>
          (w\<lparr> session := s\<lparr> bot := Some b \<rparr>,
              closures := (closures w)(b \<mapsto> \<lparr> resolved = False, signPlacementTime = 0,
                                              spawn_listener = True, timeout_pending = True \<rparr>),
              nextBot := Suc b \<rparr>,
           [Create_bot b args]))"

definition connect :: "connect_args \<Rightarrow> bool \<Rightarrow> create_outcome \<Rightarrow> world \<Rightarrow> world \<times> effect list" where
  \<comment> \<open>one call of \<open>connect(args, isReconnect)\<close>, up to its first wait\<close>
  "connect args isReconnect outcome w =
     (case connect_begin args isReconnect (session w) of
        (s, Busy, effs) \<Rightarrow> (w\<lparr> session := s \<rparr>, effs)
      | (s, Proceed_later, effs) \<Rightarrow> (w\<lparr> session := s, sleeping := sleeping w @ [args] \<rparr>, effs)
      | (s, Proceed_now, effs) \<Rightarrow>
          (case connect_body args outcome (w\<lparr> session := s \<rparr>) of
             (w', effs') \<Rightarrow> (w', effs @ effs')))"

datatype event =
    Call_connect call_args create_outcome   \<comment> \<open>the tool \<open>connect\<close> is called\<close>
  | Call_disconnect                         \<comment> \<open>the tool \<open>disconnect\<close> is called\<close>
  | Wake create_outcome                     \<comment> \<open>the oldest 500 ms wait is over\<close>
  | Reconnect_timer create_outcome          \<comment> \<open>a timer of \<open>scheduleReconnect\<close> fires\<close>
  | Spawn nat                               \<comment> \<open>events of the bot with this number ...\<close>
  | Chat_event nat string string int
  | Message_event nat string position int
  | Error_event nat string
  | Kicked nat string
  | End_event nat
  | Timeout nat                             \<comment> \<open>the 30 s timer set with this bot fires\<close>

definition with_closure ::
  "nat \<Rightarrow> world \<Rightarrow> (closure \<Rightarrow> (closure \<times> mcp \<times> effect list) option) \<Rightarrow> (world \<times> effect list) option"
  where
  \<comment> \<open>run a listener of bot \<open>b\<close>, if that bot has listeners\<close>
  "with_closure b w f =
     (case closures w b of
        None \<Rightarrow> None
      | Some c \<Rightarrow>
          (case f c of
             None \<Rightarrow> None
           | Some (c', s', effs) \<Rightarrow>
               Some (w\<lparr> session := s', closures := (closures w)(b \<mapsto> c') \<rparr>, effs)))"

definition step :: "event \<Rightarrow> world \<Rightarrow> (world \<times> effect list) option" where
  \<comment> \<open>\<open>None\<close>: the event cannot happen in this world\<close>
  "step e w =
     (case e of
        Call_connect a outcome \<Rightarrow> Some (connect (destructure a) False outcome w)
      | Call_disconnect \<Rightarrow>
          (case disconnect (session w) of (s, effs) \<Rightarrow> Some (w\<lparr> session := s \<rparr>, effs))
      | Wake outcome \<Rightarrow>
          (case sleeping w of
             [] \<Rightarrow> None
           | args # rest \<Rightarrow> Some (connect_body args outcome (w\<lparr> sleeping := rest \<rparr>)))
      | Reconnect_timer outcome \<Rightarrow>
          (if timers w = 0 then None
           else (case connectArgs (session w) of
                   None \<Rightarrow> Some (w\<lparr> timers := timers w - 1 \<rparr>, [])
                 | Some args \<Rightarrow> Some (connect args True outcome (w\<lparr> timers := timers w - 1 \<rparr>))))
      | Spawn b \<Rightarrow>
          with_closure b w
            (\<lambda>c. if spawn_listener c then Some (on_spawn b (c, session w)) else None)
      | Chat_event b user message now \<Rightarrow>
          with_closure b w
            (\<lambda>c. Some (c, (session w)\<lparr> chatLog := on_chat user message now (chatLog (session w)) \<rparr>, []))
      | Message_event b msgText pos now \<Rightarrow>
          with_closure b w
            (\<lambda>c. case on_message msgText pos now (signPlacementTime c, chatLog (session w)) of
                    (t, l) \<Rightarrow> Some (c\<lparr> signPlacementTime := t \<rparr>, (session w)\<lparr> chatLog := l \<rparr>, []))
      | Error_event b msg \<Rightarrow> with_closure b w (\<lambda>c. Some (on_error msg (c, session w)))
      | Kicked b reason \<Rightarrow> with_closure b w (\<lambda>c. Some (c, on_kicked reason (session w), []))
      | End_event b \<Rightarrow>
          (case closures w b of
             None \<Rightarrow> None
           | Some c \<Rightarrow>
               (case on_end (c, session w) of
                  (s, effs) \<Rightarrow> Some (w\<lparr> session := s, timers := timers w + length effs \<rparr>, effs)))
      | Timeout b \<Rightarrow>
          with_closure b w
            (\<lambda>c. if timeout_pending c then Some (on_timeout (c, session w)) else None))"

fun states :: "event list \<Rightarrow> world \<Rightarrow> connection_state list option" where
  \<comment> \<open>the connection state before the first event and after every event of a run\<close>
  "states [] w = Some [connectionState (session w)]"
| "states (e # es) w =
     (case step e w of
        None \<Rightarrow> None
      | Some (w', _) \<Rightarrow> map_option (\<lambda>l. connectionState (session w) # l) (states es w'))"

fun run :: "event list \<Rightarrow> world \<Rightarrow> (world \<times> effect list) option" where
  \<comment> \<open>a run of events, with everything it does\<close>
  "run [] w = Some (w, [])"
| "run (e # es) w =
     (case step e w of
        None \<Rightarrow> None
      | Some (w', effs) \<Rightarrow> map_option (\<lambda>(w'', effs'). (w'', effs @ effs')) (run es w'))"

definition is_spawn :: "event \<Rightarrow> bool" where
  "is_spawn e = (case e of Spawn _ \<Rightarrow> True | _ \<Rightarrow> False)"

definition is_timer :: "effect \<Rightarrow> bool" where
  "is_timer f = (case f of Set_reconnect_timer _ \<Rightarrow> True | _ \<Rightarrow> False)"

definition example_args :: call_args where
  "example_args = \<lparr> arg_host = None, arg_port = None, arg_username = ''Bot'',
     arg_version = None, arg_auth = None \<rparr>"

definition connected_world :: world where
  \<comment> \<open>the world after \<open>connect\<close> with \<open>example_args\<close> and the spawn of its bot\<close>
  "connected_world = \<lparr> session = constructor\<lparr> bot := Some 0, connectionState := Connected,
       connectArgs := Some (destructure example_args) \<rparr>,
     closures = (\<lambda>_. None)(0 \<mapsto> \<lparr> resolved = True, signPlacementTime = 0,
                                       spawn_listener = False, timeout_pending = True \<rparr>),
     nextBot = 1, sleeping = [], timers = 0 \<rparr>"

definition counter_inv :: "mcp \<Rightarrow> bool" where
  \<comment> \<open>what every run keeps true of the attempt counter\<close>
  "counter_inv s = (reconnectAttempt s \<le> 1 \<and>
     (connectionState s = Connected \<longrightarrow> reconnectAttempt s = 0))"

definition lost_world :: world where
  \<comment> \<open>the world after the bot of \<open>connected_world\<close> has ended and the timer of the retry
     has fired\<close>
  "lost_world = connected_world\<lparr> session := (session connected_world)\<lparr> bot := None,
     connectionState := Reconnecting, reconnectAttempt := 1 \<rparr> \<rparr>"

section \<open>Claim lookup: what a capture window yields\<close>

lemma onMessage_other_line:
  "other_line t \<Longrightarrow>
   claimed (claims_onMessage t ci) = claimed ci \<and> owner (claims_onMessage t ci) = owner ci \<and>
   builders (claims_onMessage t ci) = builders ci"
  by (auto simp add: claims_onMessage_def other_line_def claim_line_def no_claim_phrase_def Let_def)

lemma onMessage_not_claim_line:
  "\<not> claim_line t \<Longrightarrow> \<not> claimed ci \<Longrightarrow> \<not> claimed (claims_onMessage t ci)"
  by (auto simp add: claims_onMessage_def claim_line_def no_claim_phrase_def Let_def)

lemma onMessage_no_claim_phrase:
  "no_claim_phrase t \<Longrightarrow> \<not> claimed (claims_onMessage t ci)"
  by (simp add: claims_onMessage_def no_claim_phrase_def Let_def)

lemma foldl_other_lines:
  "list_all other_line ws \<Longrightarrow>
   claimed (foldl (\<lambda>ci text. claims_onMessage text ci) ci ws) = claimed ci \<and>
   owner (foldl (\<lambda>ci text. claims_onMessage text ci) ci ws) = owner ci \<and>
   builders (foldl (\<lambda>ci text. claims_onMessage text ci) ci ws) = builders ci"
  by (induction ws arbitrary: ci) (simp_all add: onMessage_other_line)

lemma foldl_not_claim_lines:
  "list_all (\<lambda>t. \<not> claim_line t) ws \<Longrightarrow> \<not> claimed ci \<Longrightarrow>
   \<not> claimed (foldl (\<lambda>ci text. claims_onMessage text ci) ci ws)"
  by (induction ws arbitrary: ci) (simp_all add: onMessage_not_claim_line)

lemma owner_line:
  "claims_onMessage ''Owner: Alice'' ci =
     ci\<lparr> raw_messages := raw_messages ci @ [''Owner: Alice''], claimed := True,
         owner := Some ''Alice'' \<rparr>"
proof -
  let ?t = "''Owner: Alice''"
  have a: "\<not> includes_str ?t ''No claim exists''" "\<not> includes_str ?t ''Wilderness''"
    "includes_str ?t ''Owner:''" "owner_match ?t = Some ''Alice''"
    by code_simp+
  show ?thesis by (simp only: claims_onMessage_def Let_def a) simp
qed

lemma builders_line:
  "claims_onMessage ''Builders: Bob, Carol'' ci =
     ci\<lparr> raw_messages := raw_messages ci @ [''Builders: Bob, Carol''], claimed := True,
         builders := [''Bob'', ''Carol''] \<rparr>"
proof -
  let ?t = "''Builders: Bob, Carol''"
  have a: "\<not> includes_str ?t ''No claim exists''" "\<not> includes_str ?t ''Wilderness''"
    "\<not> includes_str ?t ''Owner:''" "\<not> includes_str ?t ''owner:''"
    "\<not> includes_str ?t ''Managers:''" "includes_str ?t ''Builders:''"
    "key_match ''Builders:'' ?t = Some ''Bob, Carol''"
    "name_list ''Bob, Carol'' = [''Bob'', ''Carol'']"
    by code_simp+
  show ?thesis by (simp only: claims_onMessage_def Let_def a) (simp add: a)
qed

lemma line_examples:
  "other_line ''Hello there''" "no_claim_phrase ''No claim exists here.''"
  "\<not> claim_line ''No claim exists here.''"
  by (simp_all only: other_line_def claim_line_def no_claim_phrase_def) code_simp+

text \<open>
  C9. A capture window that holds the lines \<open>Owner: Alice\<close> and \<open>Builders: Bob, Carol\<close>, in
  either order and among any lines that are not about claims, yields a record with
  \<open>claimed = true\<close>, \<open>owner = "Alice"\<close> and \<open>builders = ["Bob", "Carol"]\<close>. A window with no
  claim-related line yields \<open>claimed = false\<close>, and so does a window whose answer is an
  explicit no-claim phrase (\<open>No claim exists\<close>, \<open>Wilderness\<close>): that phrase resets the flag
  whatever came before it.
\<close>

theorem claim_lookup_window:
  "(list_all other_line (xs @ ys @ zs) \<longrightarrow>
      (let ci = fst (checkClaimStatus
                       (xs @ [''Owner: Alice''] @ ys @ [''Builders: Bob, Carol''] @ zs))
       in claimed ci \<and> owner ci = Some ''Alice'' \<and> builders ci = [''Bob'', ''Carol'']) \<and>
      (let ci = fst (checkClaimStatus
                       (xs @ [''Builders: Bob, Carol''] @ ys @ [''Owner: Alice''] @ zs))
       in claimed ci \<and> owner ci = Some ''Alice'' \<and> builders ci = [''Bob'', ''Carol''])) \<and>
   (list_all (\<lambda>t. \<not> claim_line t) window \<longrightarrow> \<not> claimed (fst (checkClaimStatus window))) \<and>
   (no_claim_phrase t \<longrightarrow> \<not> claimed (fst (checkClaimStatus (window @ [t]))))"
proof (intro conjI impI)
  assume "list_all other_line (xs @ ys @ zs)"
  then have y: "list_all other_line ys" and z: "list_all other_line zs"
    by simp_all
  show "let ci = fst (checkClaimStatus
                       (xs @ [''Owner: Alice''] @ ys @ [''Builders: Bob, Carol''] @ zs))
       in claimed ci \<and> owner ci = Some ''Alice'' \<and> builders ci = [''Bob'', ''Carol'']"
    by (simp add: checkClaimStatus_def Let_def foldl_other_lines [OF z] foldl_other_lines [OF y]
        owner_line builders_line)
  show "let ci = fst (checkClaimStatus
                       (xs @ [''Builders: Bob, Carol''] @ ys @ [''Owner: Alice''] @ zs))
       in claimed ci \<and> owner ci = Some ''Alice'' \<and> builders ci = [''Bob'', ''Carol'']"
    by (simp add: checkClaimStatus_def Let_def foldl_other_lines [OF z] foldl_other_lines [OF y]
        owner_line builders_line)
next
  assume "list_all (\<lambda>t. \<not> claim_line t) window"
  then show "\<not> claimed (fst (checkClaimStatus window))"
    by (simp add: checkClaimStatus_def foldl_not_claim_lines claimInfo_init_def)
next
  assume "no_claim_phrase t"
  then show "\<not> claimed (fst (checkClaimStatus (window @ [t])))"
    by (simp add: checkClaimStatus_def onMessage_no_claim_phrase)
qed

text \<open>C9, at concrete windows.\<close>

theorem claim_lookup_window_witness:
  "claimed (fst (checkClaimStatus [''Owner: Alice'', ''Hello there'', ''Builders: Bob, Carol''])) \<and>
   owner (fst (checkClaimStatus [''Owner: Alice'', ''Hello there'', ''Builders: Bob, Carol'']))
     = Some ''Alice'' \<and>
   builders (fst (checkClaimStatus [''Owner: Alice'', ''Hello there'', ''Builders: Bob, Carol'']))
     = [''Bob'', ''Carol''] \<and>
   \<not> claimed (fst (checkClaimStatus [''Hello there''])) \<and>
   \<not> claimed (fst (checkClaimStatus [''Owner: Alice'', ''No claim exists here.'']))"
  using claim_lookup_window [where xs = "[]" and ys = "[''Hello there'']" and zs = "[]"
      and window = "[''Hello there'']" and t = "''No claim exists here.''"]
    claim_lookup_window [where xs = "[]" and ys = "[]" and zs = "[]"
      and window = "[''Owner: Alice'']" and t = "''No claim exists here.''"]
    line_examples
  by (simp add: Let_def other_line_def)

section \<open>Messages: denial capture, suppression, and the rewritten chat\<close>

lemma denial_example:
  "is_denial (toLowerCase ''You don't have permission to build in Bob's claim'')"
  by code_simp

lemma sign_placement_example:
  "sign_placement_test ''Bob placed a sign @ world: x1, z2'' \<and>
   trim ''Bob placed a sign @ world: x1, z2'' \<noteq> [] \<and>
   \<not> is_denial (toLowerCase ''Bob placed a sign @ world: x1, z2'')"
  by code_simp

lemma sign_content_example:
  "sign_content_test ''  Hello'' \<and> length ''  Hello'' < 50 \<and> trim ''  Hello'' \<noteq> [] \<and>
   \<not> sign_placement_test ''  Hello'' \<and> \<not> is_denial (toLowerCase ''  Hello'')"
  by code_simp

text \<open>
  C6. While a capture window is open, the message \<open>You don't have permission to build in
  Bob's claim\<close> adds exactly one entry, its own text, to the captured denial messages,
  on whatever channel it arrives and whatever the session's listener does with it: the
  window's listener reads neither the position nor the suppression state
  (\<open>signPlacementTime\<close>) of the session's listener.
\<close>

theorem denial_captured_once:
  "emit_message ''You don't have permission to build in Bob's claim'' pos now
     (st, denialMessages) =
   (on_message ''You don't have permission to build in Bob's claim'' pos now st,
    denialMessages @ [''You don't have permission to build in Bob's claim''])"
  by (simp only: emit_message_def denial_onMessage_def denial_example fst_conv snd_conv if_True)

text \<open>C6, on the chat channel and within a sign suppression window.\<close>

theorem denial_captured_once_witness:
  "snd (emit_message ''You don't have permission to build in Bob's claim'' Chat_pos 1700000000100
          ((1700000000000, []), [])) =
     [''You don't have permission to build in Bob's claim''] \<and>
   snd (emit_message ''You don't have permission to build in Bob's claim'' System_pos 1700000000100
          ((1700000000000, []), [])) =
     [''You don't have permission to build in Bob's claim'']"
  using denial_captured_once [of Chat_pos 1700000000100 "(1700000000000, [])" "[]"]
    denial_captured_once [of System_pos 1700000000100 "(1700000000000, [])" "[]"]
  by simp

text \<open>
  C7. The message \<open>Bob placed a sign @ world: x1, z2\<close> on an informational channel
  (\<open>system\<close> or \<open>game_info\<close>), followed less than 500 ms later by the message \<open>  Hello\<close>,
  appends nothing to the chat log, and neither message is captured as a denial. The
  second message may come on any channel.
\<close>

theorem sign_lines_suppressed:
  "t2 - t1 < 500 \<Longrightarrow> pos1 = System_pos \<or> pos1 = Game_info_pos \<Longrightarrow>
   emit_message ''  Hello'' pos2 t2
     (emit_message ''Bob placed a sign @ world: x1, z2'' pos1 t1 ((t0, entries), denialMessages)) =
   ((t1, entries), denialMessages)"
proof -
  assume t: "t2 - t1 < 500" and p: "pos1 = System_pos \<or> pos1 = Game_info_pos"
  have 1: "emit_message ''Bob placed a sign @ world: x1, z2'' pos1 t1 ((t0, entries), denialMessages)
      = ((t1, entries), denialMessages)"
    using p sign_placement_example
    by (simp add: emit_message_def on_message_def denial_onMessage_def)
  have 2: "emit_message ''  Hello'' pos2 t2 ((t1, entries), denialMessages) =
      ((t1, entries), denialMessages)"
    using t sign_content_example
    by (simp add: emit_message_def on_message_def denial_onMessage_def)
  show ?thesis by (simp only: 1 2)
qed

text \<open>C7, 300 ms apart, on an empty log.\<close>

theorem sign_lines_suppressed_witness:
  "(1700000000300::int) - 1700000000000 < 500 \<and>
   emit_message ''  Hello'' Game_info_pos 1700000000300
     (emit_message ''Bob placed a sign @ world: x1, z2'' System_pos 1700000000000 ((0, []), [])) =
   ((1700000000000, []), [])"
  using sign_lines_suppressed [of 1700000000300 1700000000000 System_pos Game_info_pos 0 "[]" "[]"]
  by simp

text \<open>
  C3. A chat event \<open>(Alice, hi)\<close> followed 100 ms later by the system message
  \<open>Alice: hi\<close> leaves two entries in the chat log: the duplicate is not logged as chat a
  second time, but the listener then falls through to the push of a system entry.
\<close>

theorem rewritten_chat_logged_twice:
  "on_message ''Alice: hi'' System_pos 1700000000100
     (0, on_chat ''Alice'' ''hi'' 1700000000000 []) =
   (0, [Chat ''Alice'' ''hi'' 1700000000000, System ''Alice: hi'' System_pos 1700000000100])"
  by code_simp

section \<open>Protected actions\<close>






section \<open>Reconnection\<close>

text \<open>
  C1 (as amended). Under the default configuration (base delay 2000 ms), and while the
  attempt budget is not used up, \<open>scheduleReconnect\<close> numbers the attempt \<open>n\<close> (counted
  from 1) and sets its timer to \<open>min(2000 * 2^(n-1), 60000)\<close> ms: the cap in the source is
  60 s.
\<close>

theorem reconnect_delay:
  "baseReconnectDelay s = 2000 \<Longrightarrow> reconnectAttempt s < maxReconnectAttempts s \<Longrightarrow>
   n = reconnectAttempt s + 1 \<Longrightarrow>
   scheduleReconnect s =
     (s\<lparr> reconnectAttempt := n, connectionState := Reconnecting \<rparr>,
      Some (min (2000 * 2 ^ (n - 1)) 60000))"
  by (simp add: scheduleReconnect_def Let_def)

text \<open>C1 as amended, at attempt 3 of the default configuration: 8000 ms.\<close>

theorem reconnect_delay_witness:
  "baseReconnectDelay (constructor\<lparr> reconnectAttempt := 2 \<rparr>) = 2000 \<and>
   reconnectAttempt (constructor\<lparr> reconnectAttempt := 2 \<rparr>)
     < maxReconnectAttempts (constructor\<lparr> reconnectAttempt := 2 \<rparr>) \<and>
   scheduleReconnect (constructor\<lparr> reconnectAttempt := 2 \<rparr>) =
     (constructor\<lparr> reconnectAttempt := 3, connectionState := Reconnecting \<rparr>, Some 8000)"
  using reconnect_delay [of "constructor\<lparr> reconnectAttempt := 2 \<rparr>" 3]
  by (simp add: constructor_def)

text \<open>
  C1, counterexample. Attempt 6 of the default configuration waits 60000 ms, where
  \<open>min(2000 * 2^(6-1), 300000)\<close> is 64000.
\<close>

theorem reconnect_delay_counterexample:
  "snd (scheduleReconnect (constructor\<lparr> reconnectAttempt := 5 \<rparr>)) = Some 60000 \<and>
   snd (scheduleReconnect (constructor\<lparr> reconnectAttempt := 5 \<rparr>))
     \<noteq> Some (min (2000 * 2 ^ (6 - 1)) 300000)"
  by (simp add: scheduleReconnect_def constructor_def)

lemma enters_connected:
  assumes "step e w = Some (w', effs)"
    and "connectionState (session w') = Connected"
    and "connectionState (session w) \<noteq> Connected"
  shows "\<exists>b c. e = Spawn b \<and> closures w b = Some c \<and> spawn_listener c \<and> bot (session w) \<noteq> None"
proof (cases e)
  case (Call_connect a oc)
  with assms show ?thesis
    by (auto simp add: step_def connect_def connect_begin_def connect_body_def Let_def
        split: if_splits option.splits create_outcome.splits)
next
  case Call_disconnect
  with assms show ?thesis
    by (auto simp add: step_def disconnect_def Let_def split: option.splits)
next
  case (Wake oc)
  with assms show ?thesis
    by (auto simp add: step_def connect_body_def Let_def split: list.splits create_outcome.splits)
next
  case (Reconnect_timer oc)
  with assms show ?thesis
    by (auto simp add: step_def connect_def connect_begin_def connect_body_def Let_def
        split: if_splits option.splits create_outcome.splits)
next
  case (Spawn b)
  with assms show ?thesis
    by (auto simp add: step_def with_closure_def on_spawn_def finish_def Let_def
        split: if_splits option.splits)
next
  case (Chat_event b u m t)
  with assms show ?thesis
    by (auto simp add: step_def with_closure_def split: option.splits)
next
  case (Message_event b m p t)
  with assms show ?thesis
    by (auto simp add: step_def with_closure_def split: option.splits prod.splits)
next
  case (Error_event b m)
  with assms show ?thesis
    by (auto simp add: step_def with_closure_def on_error_def finish_def
        split: option.splits if_splits)
next
  case (Kicked b r)
  with assms show ?thesis
    by (auto simp add: step_def with_closure_def on_kicked_def split: option.splits)
next
  case (End_event b)
  with assms show ?thesis
    by (auto simp add: step_def on_end_def scheduleReconnect_def Let_def
        split: option.splits if_splits prod.splits)
next
  case (Timeout b)
  with assms show ?thesis
    by (auto simp add: step_def with_closure_def on_timeout_def finish_def Let_def
        split: option.splits if_splits prod.splits)
qed

lemma step_sets_no_timer:
  assumes "step e w = Some (w', effs)"
    and "connectionState (session w) \<noteq> Connected"
  shows "list_all (\<lambda>f. \<not> is_timer f) effs \<and> timers w' \<le> timers w"
proof (cases e)
  case (Call_connect a oc)
  with assms show ?thesis
    by (auto simp add: step_def connect_def connect_begin_def connect_body_def Let_def is_timer_def
        split: if_splits option.splits create_outcome.splits)
next
  case Call_disconnect
  with assms show ?thesis
    by (auto simp add: step_def disconnect_def Let_def is_timer_def split: option.splits)
next
  case (Wake oc)
  with assms show ?thesis
    by (auto simp add: step_def connect_body_def Let_def is_timer_def
        split: list.splits create_outcome.splits)
next
  case (Reconnect_timer oc)
  with assms show ?thesis
    by (auto simp add: step_def connect_def connect_begin_def connect_body_def Let_def is_timer_def
        split: if_splits option.splits create_outcome.splits)
next
  case (Spawn b)
  with assms show ?thesis
    by (auto simp add: step_def with_closure_def on_spawn_def finish_def Let_def is_timer_def
        split: if_splits option.splits)
next
  case (Chat_event b u m t)
  with assms show ?thesis
    by (auto simp add: step_def with_closure_def split: option.splits)
next
  case (Message_event b m p t)
  with assms show ?thesis
    by (auto simp add: step_def with_closure_def split: option.splits prod.splits)
next
  case (Error_event b m)
  with assms show ?thesis
    by (auto simp add: step_def with_closure_def on_error_def finish_def is_timer_def
        split: option.splits if_splits)
next
  case (Kicked b r)
  with assms show ?thesis
    by (auto simp add: step_def with_closure_def on_kicked_def split: option.splits)
next
  case (End_event b)
  with assms show ?thesis
    by (auto simp add: step_def on_end_def Let_def split: option.splits if_splits prod.splits)
next
  case (Timeout b)
  with assms show ?thesis
    by (auto simp add: step_def with_closure_def on_timeout_def finish_def Let_def is_timer_def
        split: option.splits if_splits prod.splits)
qed

lemma run_sets_no_timer:
  "run es w = Some (w', effs) \<Longrightarrow> connectionState (session w) \<noteq> Connected \<Longrightarrow>
   list_all (\<lambda>e. \<not> is_spawn e) es \<Longrightarrow>
   list_all (\<lambda>f. \<not> is_timer f) effs \<and> timers w' \<le> timers w \<and>
   connectionState (session w') \<noteq> Connected"
proof (induction es arbitrary: w w' effs)
  case Nil
  then show ?case by simp
next
  case (Cons e es)
  from Cons.prems(1) obtain w1 effs1 w2 effs2
    where s: "step e w = Some (w1, effs1)" and r: "run es w1 = Some (w2, effs2)"
      and eq: "w' = w2" "effs = effs1 @ effs2"
    by (auto split: option.splits)
  from Cons.prems(3) have ns: "\<not> is_spawn e" and rest: "list_all (\<lambda>e. \<not> is_spawn e) es"
    by simp_all
  have nc: "connectionState (session w1) \<noteq> Connected"
  proof
    assume "connectionState (session w1) = Connected"
    from enters_connected [OF s this Cons.prems(2)] ns show False by (auto simp: is_spawn_def)
  qed
  from step_sets_no_timer [OF s Cons.prems(2)] Cons.IH [OF r nc rest] eq
  show ?case by auto
qed

text \<open>
  The budget check of \<open>scheduleReconnect\<close>, taken alone: with the counter at the budget
  it sets \<open>disconnected\<close> and no timer. The runs of a session never bring the counter
  there (\<open>attempt_at_most_one\<close> below).
\<close>

lemma scheduleReconnect_at_budget:
  "maxReconnectAttempts s \<le> reconnectAttempt s \<Longrightarrow>
   scheduleReconnect s = (s\<lparr> connectionState := Disconnected \<rparr>, None)"
  by (simp add: scheduleReconnect_def)

lemmas step_defs = step_def connect_def connect_begin_def connect_body_def disconnect_def
  with_closure_def on_spawn_def on_end_def on_error_def on_timeout_def on_kicked_def finish_def
  scheduleReconnect_def world_init_def constructor_def destructure_def example_args_def Let_def

section \<open>The connection state machine\<close>

lemma busy_iff:
  "(fst (snd (connect_begin args isReconnect s)) = Busy) =
   (connectionState s = Connecting \<or> connectionState s = Reconnecting)"
  by (auto simp add: connect_begin_def Let_def split: option.splits)

lemma begin_state:
  "connect_begin args isReconnect s = (s', r, effs) \<Longrightarrow> r \<noteq> Busy \<Longrightarrow>
   connectionState s' = (if isReconnect then Reconnecting else Connecting)"
  by (auto simp add: connect_begin_def Let_def split: if_splits option.splits)

lemma listeners_made_by_connect:
  assumes "step e w = Some (w', effs)" and "closures w b = None" and "closures w' b \<noteq> None"
  shows "(\<exists>a. e = Call_connect a Created) \<or> e = Wake Created \<or> e = Reconnect_timer Created"
proof (cases e)
  case (Call_connect a oc)
  with assms show ?thesis
    by (auto simp add: step_def connect_def connect_begin_def connect_body_def Let_def
        split: if_splits option.splits create_outcome.splits)
next
  case Call_disconnect
  with assms show ?thesis
    by (auto simp add: step_def disconnect_def Let_def split: option.splits)
next
  case (Wake oc)
  with assms show ?thesis
    by (auto simp add: step_def connect_body_def Let_def split: list.splits create_outcome.splits)
next
  case (Reconnect_timer oc)
  with assms show ?thesis
    by (auto simp add: step_def connect_def connect_begin_def connect_body_def Let_def
        split: if_splits option.splits create_outcome.splits)
next
  case (Spawn b)
  with assms show ?thesis
    by (auto simp add: step_def with_closure_def split: if_splits option.splits prod.splits)
next
  case (Chat_event b u m t)
  with assms show ?thesis
    by (auto simp add: step_def with_closure_def split: option.splits if_splits)
next
  case (Message_event b m p t)
  with assms show ?thesis
    by (auto simp add: step_def with_closure_def split: option.splits prod.splits if_splits)
next
  case (Error_event b m)
  with assms show ?thesis
    by (auto simp add: step_def with_closure_def split: option.splits if_splits prod.splits)
next
  case (Kicked b r)
  with assms show ?thesis
    by (auto simp add: step_def with_closure_def split: option.splits if_splits)
next
  case (End_event b)
  with assms show ?thesis
    by (auto simp add: step_def split: option.splits if_splits prod.splits)
next
  case (Timeout b)
  with assms show ?thesis
    by (auto simp add: step_def with_closure_def split: option.splits if_splits prod.splits)
qed

text \<open>
  C2 (as amended). The connection state is at any time one of the four states. A step
  takes the session into \<open>connected\<close> only as the \<open>spawn\<close> event of a bot whose listeners
  are attached, and listeners are attached only by the promise body of a \<open>connect\<close>
  call. A \<open>connect\<close> call that is not turned away as busy sets the state, before it
  makes its bot, to \<open>connecting\<close> when it is an explicit call and to \<open>reconnecting\<close> when
  it is a retry (\<open>isReconnect\<close>): a successful retry goes from \<open>reconnecting\<close> to
  \<open>connected\<close> and does not pass through \<open>connecting\<close>.
\<close>

theorem connected_only_by_spawn:
  "(connectionState s = Disconnected \<or> connectionState s = Connecting \<or>
    connectionState s = Connected \<or> connectionState s = Reconnecting) \<and>
   (step e w = Some (w', effs) \<and> connectionState (session w') = Connected \<and>
    connectionState (session w) \<noteq> Connected \<longrightarrow>
      (\<exists>b c. e = Spawn b \<and> closures w b = Some c \<and> spawn_listener c \<and> bot (session w) \<noteq> None)) \<and>
   (step e w = Some (w', effs) \<and> closures w b = None \<and> closures w' b \<noteq> None \<longrightarrow>
      (\<exists>a. e = Call_connect a Created) \<or> e = Wake Created \<or> e = Reconnect_timer Created) \<and>
   (connect_begin args isReconnect s = (s', r, effs') \<and> r \<noteq> Busy \<longrightarrow>
      connectionState s' = (if isReconnect then Reconnecting else Connecting))"
proof (intro conjI impI)
  show "connectionState s = Disconnected \<or> connectionState s = Connecting \<or>
    connectionState s = Connected \<or> connectionState s = Reconnecting"
    by (cases "connectionState s") simp_all
next
  assume "step e w = Some (w', effs) \<and> connectionState (session w') = Connected \<and>
    connectionState (session w) \<noteq> Connected"
  then show "\<exists>b c. e = Spawn b \<and> closures w b = Some c \<and> spawn_listener c \<and> bot (session w) \<noteq> None"
    using enters_connected [of e w w' effs] by simp
next
  assume "step e w = Some (w', effs) \<and> closures w b = None \<and> closures w' b \<noteq> None"
  then show "(\<exists>a. e = Call_connect a Created) \<or> e = Wake Created \<or> e = Reconnect_timer Created"
    using listeners_made_by_connect [of e w w' effs b] by simp
next
  assume "connect_begin args isReconnect s = (s', r, effs') \<and> r \<noteq> Busy"
  then show "connectionState s' = (if isReconnect then Reconnecting else Connecting)"
    using begin_state [of args isReconnect s s' r effs'] by simp
qed

lemma first_connect:
  "step (Call_connect example_args Created) world_init =
     Some (world_init\<lparr> session := constructor\<lparr> bot := Some 0, connectionState := Connecting,
                          connectArgs := Some (destructure example_args) \<rparr>,
             closures := (\<lambda>_. None)(0 \<mapsto> \<lparr> resolved = False, signPlacementTime = 0,
                                            spawn_listener = True, timeout_pending = True \<rparr>),
             nextBot := 1 \<rparr>,
           [Create_bot 0 (destructure example_args)])"
  by (simp add: step_defs)

lemma first_spawn:
  "step (Spawn 0)
     (world_init\<lparr> session := constructor\<lparr> bot := Some 0, connectionState := Connecting,
                          connectArgs := Some (destructure example_args) \<rparr>,
             closures := (\<lambda>_. None)(0 \<mapsto> \<lparr> resolved = False, signPlacementTime = 0,
                                            spawn_listener = True, timeout_pending = True \<rparr>),
             nextBot := 1 \<rparr>) =
   Some (connected_world, [Resolve_connect 0])"
  by (simp add: step_defs connected_world_def)

lemma retry_begin:
  "connect_begin (destructure example_args) True (session connected_world) =
     ((session connected_world)\<lparr> connectionState := Reconnecting, bot := None \<rparr>,
      Proceed_later, [Bot_quit 0, Sleep 500])"
  by (simp add: step_defs connected_world_def)

text \<open>C2 as amended, at the first connect of a session, its spawn, and a retry.\<close>

theorem connected_only_by_spawn_witness:
  "connectionState (session connected_world) = Connected \<and>
   (\<exists>b c. Spawn 0 = Spawn b \<and>
      closures (world_init\<lparr> session := constructor\<lparr> bot := Some 0, connectionState := Connecting,
                          connectArgs := Some (destructure example_args) \<rparr>,
             closures := (\<lambda>_. None)(0 \<mapsto> \<lparr> resolved = False, signPlacementTime = 0,
                                            spawn_listener = True, timeout_pending = True \<rparr>),
             nextBot := 1 \<rparr>) b = Some c \<and> spawn_listener c) \<and>
   connectionState ((session connected_world)\<lparr> connectionState := Reconnecting, bot := None \<rparr>)
     = Reconnecting"
  using connected_only_by_spawn [where e = "Spawn 0"
      and w = "world_init\<lparr> session := constructor\<lparr> bot := Some 0, connectionState := Connecting,
                          connectArgs := Some (destructure example_args) \<rparr>,
             closures := (\<lambda>_. None)(0 \<mapsto> \<lparr> resolved = False, signPlacementTime = 0,
                                            spawn_listener = True, timeout_pending = True \<rparr>),
             nextBot := 1 \<rparr>"
      and w' = connected_world and effs = "[Resolve_connect 0]"
      and args = "destructure example_args" and isReconnect = True
      and s = "session connected_world"
      and s' = "(session connected_world)\<lparr> connectionState := Reconnecting, bot := None \<rparr>"
      and r = Proceed_later and effs' = "[Bot_quit 0, Sleep 500]" and b = 0]
    first_spawn retry_begin
  by (simp add: connected_world_def constructor_def)

text \<open>
  C2, counterexample. A session connects, loses its bot and schedules a retry; before
  the timer fires the caller disconnects and connects again. The timer then finds the
  session \<open>connected\<close>, so its retry is let through: it sets \<open>reconnecting\<close>, quits the
  bot, makes a new one, and that bot's spawn takes the session from \<open>reconnecting\<close>
  straight to \<open>connected\<close>.
\<close>

theorem retry_skips_connecting:
  "states [Call_connect example_args Created, Spawn 0, End_event 0, Call_disconnect,
           Call_connect example_args Created, Spawn 1, Reconnect_timer Created, End_event 1,
           Wake Created, Spawn 2]
     world_init =
   Some [Disconnected, Connecting, Connected, Reconnecting, Disconnected,
         Connecting, Connected, Reconnecting, Reconnecting, Reconnecting, Connected]"
  by (simp add: step_defs)

text \<open>
  In the runs of a session the attempt counter never exceeds 1: \<open>scheduleReconnect\<close> is
  called only by the \<open>end\<close> listener of a \<open>connected\<close> session, and the counter of a
  \<open>connected\<close> session is zero.
\<close>

lemma step_counter_inv:
  assumes "step e w = Some (w', effs)" and "counter_inv (session w)"
  shows "counter_inv (session w')"
proof (cases e)
  case (Call_connect a oc)
  with assms show ?thesis
    by (auto simp add: counter_inv_def step_def connect_def connect_begin_def connect_body_def Let_def
        split: if_splits option.splits create_outcome.splits)
next
  case Call_disconnect
  with assms show ?thesis
    by (auto simp add: counter_inv_def step_def disconnect_def Let_def split: option.splits)
next
  case (Wake oc)
  with assms show ?thesis
    by (auto simp add: counter_inv_def step_def connect_body_def Let_def
        split: list.splits create_outcome.splits)
next
  case (Reconnect_timer oc)
  with assms show ?thesis
    by (auto simp add: counter_inv_def step_def connect_def connect_begin_def connect_body_def Let_def
        split: if_splits option.splits create_outcome.splits)
next
  case (Spawn b)
  with assms show ?thesis
    by (auto simp add: counter_inv_def step_def with_closure_def on_spawn_def finish_def Let_def
        split: if_splits option.splits)
next
  case (Chat_event b u m t)
  with assms show ?thesis
    by (auto simp add: counter_inv_def step_def with_closure_def split: option.splits)
next
  case (Message_event b m p t)
  with assms show ?thesis
    by (auto simp add: counter_inv_def step_def with_closure_def split: option.splits prod.splits)
next
  case (Error_event b m)
  with assms show ?thesis
    by (auto simp add: counter_inv_def step_def with_closure_def on_error_def finish_def
        split: option.splits if_splits)
next
  case (Kicked b r)
  with assms show ?thesis
    by (auto simp add: counter_inv_def step_def with_closure_def on_kicked_def split: option.splits)
next
  case (End_event b)
  with assms show ?thesis
    by (auto simp add: counter_inv_def step_def on_end_def scheduleReconnect_def Let_def
        split: option.splits if_splits prod.splits)
next
  case (Timeout b)
  with assms show ?thesis
    by (auto simp add: counter_inv_def step_def with_closure_def on_timeout_def finish_def Let_def
        split: option.splits if_splits prod.splits)
qed

lemma run_counter_inv:
  "run es w = Some (w', effs) \<Longrightarrow> counter_inv (session w) \<Longrightarrow> counter_inv (session w')"
proof (induction es arbitrary: w w' effs)
  case Nil
  then show ?case by simp
next
  case (Cons e es)
  from Cons.prems(1) obtain w1 effs1 effs2
    where s: "step e w = Some (w1, effs1)" and r: "run es w1 = Some (w', effs2)"
    by (auto split: option.splits)
  from Cons.IH [OF r step_counter_inv [OF s Cons.prems(2)]] show ?case .
qed

lemma attempt_at_most_one:
  "run es world_init = Some (w, effs) \<Longrightarrow> reconnectAttempt (session w) \<le> 1"
  using run_counter_inv [of es world_init w effs]
  by (simp add: counter_inv_def world_init_def constructor_def)

lemma stays_reconnecting:
  assumes "step e w = Some (w', effs)" and "e \<noteq> Call_disconnect"
    and "connectionState (session w) = Reconnecting" and "sleeping w = []" and "timers w = 0"
    and "\<forall>b c. closures w b = Some c \<longrightarrow> resolved c \<and> \<not> spawn_listener c"
  shows "connectionState (session w') = Reconnecting \<and> sleeping w' = [] \<and> timers w' = 0 \<and>
    (\<forall>b c. closures w' b = Some c \<longrightarrow> resolved c \<and> \<not> spawn_listener c) \<and>
    list_all (\<lambda>f. \<not> is_timer f) effs \<and>
    reconnectAttempt (session w') = reconnectAttempt (session w)"
proof (cases e)
  case (Call_connect a oc)
  with assms show ?thesis
    by (auto simp add: step_def connect_def connect_begin_def is_timer_def)
next
  case Call_disconnect
  with assms show ?thesis by simp
next
  case (Wake oc)
  with assms show ?thesis by (simp add: step_def)
next
  case (Reconnect_timer oc)
  with assms show ?thesis by (simp add: step_def)
next
  case (Spawn b)
  with assms show ?thesis
    by (auto simp add: step_def with_closure_def split: option.splits if_splits)
next
  case (Chat_event b u m t)
  with assms show ?thesis
    by (auto simp add: step_def with_closure_def split: option.splits if_splits)
next
  case (Message_event b m p t)
  with assms show ?thesis
    by (auto simp add: step_def with_closure_def split: option.splits prod.splits if_splits)
next
  case (Error_event b m)
  with assms show ?thesis
    by (auto simp add: step_def with_closure_def on_error_def finish_def
        split: option.splits if_splits)
next
  case (Kicked b r)
  with assms show ?thesis
    by (auto simp add: step_def with_closure_def on_kicked_def split: option.splits if_splits)
next
  case (End_event b)
  with assms show ?thesis
    by (auto simp add: step_def on_end_def Let_def split: option.splits if_splits prod.splits)
next
  case (Timeout b)
  with assms show ?thesis
    by (auto simp add: step_def with_closure_def on_timeout_def finish_def Let_def
        split: option.splits if_splits prod.splits)
qed

text \<open>
  After the loss of a connection the session stays \<open>reconnecting\<close>, with the counter
  where it is and no timer set, whatever happens, until \<open>disconnect\<close> is called.
\<close>

lemma reconnecting_for_good:
  "run es w = Some (w', effs) \<Longrightarrow> list_all (\<lambda>e. e \<noteq> Call_disconnect) es \<Longrightarrow>
   connectionState (session w) = Reconnecting \<Longrightarrow> sleeping w = [] \<Longrightarrow> timers w = 0 \<Longrightarrow>
   \<forall>b c. closures w b = Some c \<longrightarrow> resolved c \<and> \<not> spawn_listener c \<Longrightarrow>
   connectionState (session w') = Reconnecting \<and> list_all (\<lambda>f. \<not> is_timer f) effs \<and>
   reconnectAttempt (session w') = reconnectAttempt (session w)"
proof (induction es arbitrary: w w' effs)
  case Nil
  then show ?case by simp
next
  case (Cons e es)
  from Cons.prems(1) obtain w1 effs1 effs2
    where s: "step e w = Some (w1, effs1)" and r: "run es w1 = Some (w', effs2)"
      and eq: "effs = effs1 @ effs2"
    by (auto split: option.splits)
  from Cons.prems(2) have ne: "e \<noteq> Call_disconnect"
    and rest: "list_all (\<lambda>e. e \<noteq> Call_disconnect) es"
    by simp_all
  note k = stays_reconnecting [OF s ne Cons.prems(3) Cons.prems(4) Cons.prems(5) Cons.prems(6)]
  from k have k1: "connectionState (session w1) = Reconnecting" and k2: "sleeping w1 = []"
    and k3: "timers w1 = 0"
    and k4: "\<forall>b c. closures w1 b = Some c \<longrightarrow> resolved c \<and> \<not> spawn_listener c"
    by blast+
  from Cons.IH [OF r rest k1 k2 k3 k4] k eq show ?case by simp
qed

lemma lost_world_for_good:
  "run es lost_world = Some (w', effs) \<Longrightarrow> list_all (\<lambda>e. e \<noteq> Call_disconnect) es \<Longrightarrow>
   connectionState (session w') = Reconnecting \<and> list_all (\<lambda>f. \<not> is_timer f) effs \<and>
   reconnectAttempt (session w') = 1"
  using reconnecting_for_good [of es lost_world w' effs]
  by (simp add: lost_world_def connected_world_def)

text \<open>
  C5. A session connects and then loses its connection. One retry is scheduled, after
  2000 ms. When its timer fires, \<open>scheduleReconnect\<close> has already set the state to
  \<open>reconnecting\<close>, so the \<open>connect\<close> call of the timer is turned away as busy: no bot is
  made, no further timer is set, the counter stays at 1 of 10, and the session stays
  \<open>reconnecting\<close>. The budget is never reached and the state never becomes
  \<open>disconnected\<close>; an explicit \<open>connect\<close> call is turned away in the same way.
\<close>

theorem retry_turned_away:
  "run [Call_connect example_args Created, Spawn 0, End_event 0, Reconnect_timer Created]
     world_init =
   Some (lost_world,
         [Create_bot 0 (destructure example_args), Resolve_connect 0, Set_reconnect_timer 2000,
          Return (Text ''Already reconnecting. Please wait.'')]) \<and>
   connectionState (session lost_world) = Reconnecting \<and>
   reconnectAttempt (session lost_world) = 1 \<and>
   maxReconnectAttempts (session lost_world) = 10 \<and>
   timers lost_world = 0 \<and>
   step (Reconnect_timer Created) lost_world = None \<and>
   map_option snd (step (Call_connect example_args Created) lost_world) =
     Some [Return (Text ''Already reconnecting. Please wait.'')] \<and>
   map_option (\<lambda>r. connectionState (session (fst r)))
     (step (Call_connect example_args Created) lost_world) = Some Reconnecting"
  by (simp add: step_defs lost_world_def connected_world_def state_name_def)

text \<open>
  C4. A \<open>connect\<close> call made while the session is \<open>connecting\<close> or \<open>reconnecting\<close> returns
  \<open>Already connecting. Please wait.\<close> (or \<open>Already reconnecting. Please wait.\<close>) and does
  nothing else to the attempt in flight: the state, the bot, the attached listeners, the
  waiting calls and the timers are as before, and no bot is made or quit. The call does
  store its arguments as the credentials for later retries.
\<close>

theorem connect_while_busy:
  "connectionState (session w) = Connecting \<or> connectionState (session w) = Reconnecting \<Longrightarrow>
   \<exists>w'. step (Call_connect a outcome) w =
          Some (w', [Return (Text (''Already '' @ state_name (connectionState (session w)) @
                                   ''. Please wait.''))]) \<and>
        connectionState (session w') = connectionState (session w) \<and>
        bot (session w') = bot (session w) \<and>
        closures w' = closures w \<and> sleeping w' = sleeping w \<and> nextBot w' = nextBot w \<and>
        timers w' = timers w \<and>
        session w' = (session w)\<lparr> connectArgs := Some (destructure a) \<rparr>"
  by (auto simp add: step_def connect_def connect_begin_def)

text \<open>C4, at a second call right after the first, whose bot has not spawned yet.\<close>

theorem connect_while_busy_witness:
  "connectionState (constructor\<lparr> bot := Some 0, connectionState := Connecting,
                          connectArgs := Some (destructure example_args) \<rparr>) = Connecting \<and>
   (\<exists>w'. step (Call_connect (example_args\<lparr> arg_username := ''Other'' \<rparr>) Created)
          (world_init\<lparr> session := constructor\<lparr> bot := Some 0, connectionState := Connecting,
                          connectArgs := Some (destructure example_args) \<rparr>,
             closures := (\<lambda>_. None)(0 \<mapsto> \<lparr> resolved = False, signPlacementTime = 0,
                                            spawn_listener = True, timeout_pending = True \<rparr>),
             nextBot := 1 \<rparr>) =
        Some (w', [Return (Text ''Already connecting. Please wait.'')]) \<and>
        connectionState (session w') = Connecting \<and> bot (session w') = Some 0 \<and> nextBot w' = 1)"
proof -
  let ?w = "world_init\<lparr> session := constructor\<lparr> bot := Some 0, connectionState := Connecting,
                          connectArgs := Some (destructure example_args) \<rparr>,
             closures := (\<lambda>_. None)(0 \<mapsto> \<lparr> resolved = False, signPlacementTime = 0,
                                            spawn_listener = True, timeout_pending = True \<rparr>),
             nextBot := 1 \<rparr>"
  have h: "connectionState (session ?w) = Connecting \<or> connectionState (session ?w) = Reconnecting"
    by simp
  from connect_while_busy [OF h, of "example_args\<lparr> arg_username := ''Other'' \<rparr>" Created]
  obtain w' where
    "step (Call_connect (example_args\<lparr> arg_username := ''Other'' \<rparr>) Created) ?w =
       Some (w', [Return (Text (''Already '' @ state_name (connectionState (session ?w)) @
                                ''. Please wait.''))])"
    "connectionState (session w') = connectionState (session ?w)"
    "bot (session w') = bot (session ?w)" "nextBot w' = nextBot ?w"
    by blast
  then show ?thesis
    by (intro conjI exI [of _ w']) (simp_all add: state_name_def world_init_def)
qed

text \<open>
  C10. A \<open>connect\<close> call made while the session is \<open>connected\<close> is not turned away: it
  stores as the credentials the host, port, user name, version and auth of the call (host
  \<open>localhost\<close> and port 25565 where the call leaves them out), sets the state to
  \<open>connecting\<close>, quits the bot of the session and waits 500 ms; then (no other call
  waiting) the promise body makes a new bot from these same arguments and attaches
  fresh listeners to it. A call is turned away as busy in the states \<open>connecting\<close> and
  \<open>reconnecting\<close> and in no other.
\<close>

theorem connect_while_connected:
  "connectionState (session w) = Connected \<Longrightarrow> bot (session w) = Some b \<Longrightarrow>
   new = \<lparr> host = (case arg_host a of None \<Rightarrow> ''localhost'' | Some h \<Rightarrow> h),
           port = (case arg_port a of None \<Rightarrow> 25565 | Some p \<Rightarrow> p),
           username = arg_username a, version = arg_version a, auth = arg_auth a \<rparr> \<Longrightarrow>
   step (Call_connect a outcome) w =
     Some (w\<lparr> session := (session w)\<lparr> connectArgs := Some new,
                                      connectionState := Connecting, bot := None \<rparr>,
              sleeping := sleeping w @ [new] \<rparr>,
           [Bot_quit b, Sleep 500]) \<and>
   (sleeping w = [] \<longrightarrow>
    run [Call_connect a outcome, Wake Created] w =
     Some (w\<lparr> session := (session w)\<lparr> connectArgs := Some new,
                                      connectionState := Connecting, bot := Some (nextBot w) \<rparr>,
              closures := (closures w)(nextBot w \<mapsto> \<lparr> resolved = False, signPlacementTime = 0,
                                              spawn_listener = True, timeout_pending = True \<rparr>),
              nextBot := Suc (nextBot w) \<rparr>,
           [Bot_quit b, Sleep 500, Create_bot (nextBot w) new])) \<and>
   ((fst (snd (connect_begin args isReconnect s)) = Busy) =
    (connectionState s = Connecting \<or> connectionState s = Reconnecting))"
proof (intro conjI)
  assume c: "connectionState (session w) = Connected" and b: "bot (session w) = Some b"
    and n: "new = \<lparr> host = (case arg_host a of None \<Rightarrow> ''localhost'' | Some h \<Rightarrow> h),
           port = (case arg_port a of None \<Rightarrow> 25565 | Some p \<Rightarrow> p),
           username = arg_username a, version = arg_version a, auth = arg_auth a \<rparr>"
  from n have d: "destructure a = new" by (simp add: destructure_def)
  show "step (Call_connect a outcome) w =
     Some (w\<lparr> session := (session w)\<lparr> connectArgs := Some new,
                                      connectionState := Connecting, bot := None \<rparr>,
              sleeping := sleeping w @ [new] \<rparr>,
           [Bot_quit b, Sleep 500])"
    using c b by (simp add: step_def connect_def connect_begin_def d)
  show "sleeping w = [] \<longrightarrow>
    run [Call_connect a outcome, Wake Created] w =
     Some (w\<lparr> session := (session w)\<lparr> connectArgs := Some new,
                                      connectionState := Connecting, bot := Some (nextBot w) \<rparr>,
              closures := (closures w)(nextBot w \<mapsto> \<lparr> resolved = False, signPlacementTime = 0,
                                              spawn_listener = True, timeout_pending = True \<rparr>),
              nextBot := Suc (nextBot w) \<rparr>,
           [Bot_quit b, Sleep 500, Create_bot (nextBot w) new])"
    using c b by (simp add: step_def connect_def connect_begin_def connect_body_def Let_def d)
  show "(fst (snd (connect_begin args isReconnect s)) = Busy) =
    (connectionState s = Connecting \<or> connectionState s = Reconnecting)"
    by (rule busy_iff)
qed

text \<open>
  C10, at the connected session of the example (user \<open>Bot\<close> on \<open>localhost\<close>), called for
  user \<open>Other\<close> on host \<open>mc.example.org\<close> with the port left out.
\<close>

theorem connect_while_connected_witness:
  "connectionState (session connected_world) = Connected \<and>
   bot (session connected_world) = Some 0 \<and> sleeping connected_world = [] \<and>
   map_option snd
     (run [Call_connect \<lparr> arg_host = Some ''mc.example.org'', arg_port = None,
                          arg_username = ''Other'', arg_version = None, arg_auth = None \<rparr> Created,
           Wake Created]
        connected_world) =
   Some [Bot_quit 0, Sleep 500,
         Create_bot 1 \<lparr> host = ''mc.example.org'', port = 25565, username = ''Other'',
                        version = None, auth = None \<rparr>] \<and>
   map_option (\<lambda>r. connectArgs (session (fst r)))
     (run [Call_connect \<lparr> arg_host = Some ''mc.example.org'', arg_port = None,
                          arg_username = ''Other'', arg_version = None, arg_auth = None \<rparr> Created,
           Wake Created]
        connected_world) =
   Some (Some \<lparr> host = ''mc.example.org'', port = 25565, username = ''Other'',
                version = None, auth = None \<rparr>)"
proof -
  let ?a = "\<lparr> arg_host = Some ''mc.example.org'', arg_port = None,
              arg_username = ''Other'', arg_version = None, arg_auth = None \<rparr>"
  let ?new = "\<lparr> host = ''mc.example.org'', port = 25565, username = ''Other'',
                version = None, auth = None \<rparr>"
  have h: "connectionState (session connected_world) = Connected"
    "bot (session connected_world) = Some 0" "sleeping connected_world = []"
    by (simp_all add: connected_world_def)
  have n: "?new = \<lparr> host = (case arg_host ?a of None \<Rightarrow> ''localhost'' | Some h \<Rightarrow> h),
           port = (case arg_port ?a of None \<Rightarrow> 25565 | Some p \<Rightarrow> p),
           username = arg_username ?a, version = arg_version ?a, auth = arg_auth ?a \<rparr>"
    by simp
  from connect_while_connected [OF h(1) h(2) n, where outcome = Created] h(3)
  have r: "run [Call_connect ?a Created, Wake Created] connected_world =
     Some (connected_world\<lparr> session := (session connected_world)\<lparr> connectArgs := Some ?new,
                connectionState := Connecting, bot := Some (nextBot connected_world) \<rparr>,
              closures := (closures connected_world)(nextBot connected_world \<mapsto>
                 \<lparr> resolved = False, signPlacementTime = 0,
                   spawn_listener = True, timeout_pending = True \<rparr>),
              nextBot := Suc (nextBot connected_world) \<rparr>,
           [Bot_quit 0, Sleep 500, Create_bot (nextBot connected_world) ?new])"
    by blast
  show ?thesis using h by (simp only: r) (simp add: connected_world_def)
qed

end
